theory Spec2Isabelle
  imports Main
begin

section \<open>The Things model of the gateway (src/models/things.js)\<close>

text \<open>
  The module keeps two pieces of state, \<open>things\<close> (a JavaScript \<open>Map\<close> from id to
  \<open>Thing\<close>) and \<open>websockets\<close> (an array of subscribers), and talks to three
  collaborators that are not part of this file: the database, the add-on manager and
  the websockets themselves. The state is an explicit record that every operation
  takes and returns; what a collaborator answers is an argument of the operation, and
  what the module asks of a collaborator is appended to a log in the state.
\<close>

subsection \<open>Values\<close>

text \<open>A thrown or rejected value: \<open>new Error(message)\<close>, the only kind the module builds.\<close>

datatype error = Error string

text \<open>
  A thing description as the module reads it: \<open>id\<close>, \<open>href\<close> and \<open>properties\<close>
  (an object from property name to property description, or absent); everything else
  is opaque. Descriptions are plain JSON-like values: no two of them share a part.
\<close>

record property =
  prop_href :: "string option"
  prop_other :: string

record description =
  desc_id :: string
  desc_href :: "string option"
  desc_properties :: "(string \<times> property) list option"
  desc_other :: string

text \<open>
  Modelled from the spec: the \<open>Thing\<close> class of thing.js, which is not part of this
  file. It wraps the id and the description it was built from, \<open>getDescription\<close>
  gives the description back, and \<open>remove\<close> is a cleanup hook (recorded in the state
  below).
\<close>

record thing =
  thing_id :: string
  thing_description :: description

definition Thing :: "string \<Rightarrow> description \<Rightarrow> thing" where
  "Thing i d = \<lparr>thing_id = i, thing_description = d\<rparr>"

definition getDescription :: "thing \<Rightarrow> description" where
  "getDescription t = thing_description t"

text \<open>The two path prefixes read from the constants module.\<close>

record constants =
  THINGS_PATH :: string
  PROPERTIES_PATH :: string

subsection \<open>JavaScript \<open>Map\<close> and array primitives\<close>

text \<open>
  A \<open>Map\<close> keeps its entries in insertion order with one entry per key: an association
  list. \<open>set\<close> on a key already present replaces the value where it stands, on a new
  key it appends.
\<close>

type_synonym ('k, 'v) js_map = "('k \<times> 'v) list"

fun Map_set :: "'k \<Rightarrow> 'v \<Rightarrow> ('k, 'v) js_map \<Rightarrow> ('k, 'v) js_map" where
  "Map_set k v [] = [(k, v)]"
| "Map_set k v ((k', v') # m) = (if k' = k then (k, v) # m else (k', v') # Map_set k v m)"

fun Map_has :: "('k, 'v) js_map \<Rightarrow> 'k \<Rightarrow> bool" where
  "Map_has [] k = False"
| "Map_has ((k', v') # m) k = (k' = k \<or> Map_has m k)"

fun Map_get :: "('k, 'v) js_map \<Rightarrow> 'k \<Rightarrow> 'v option" where
  "Map_get [] k = None"
| "Map_get ((k', v') # m) k = (if k' = k then Some v' else Map_get m k)"

fun Map_delete :: "'k \<Rightarrow> ('k, 'v) js_map \<Rightarrow> ('k, 'v) js_map" where
  "Map_delete k [] = []"
| "Map_delete k ((k', v') # m) = (if k' = k then Map_delete k m else (k', v') # Map_delete k m)"

definition Map_size :: "('k, 'v) js_map \<Rightarrow> nat" where
  "Map_size m = length m"

text \<open>\<open>Array.prototype.indexOf\<close>: the first index holding the value, \<open>-1\<close> when none does.\<close>

fun indexOf :: "'a list \<Rightarrow> 'a \<Rightarrow> int" where
  "indexOf [] x = - 1"
| "indexOf (y # ys) x =
     (if y = x then 0 else (let i = indexOf ys x in if i < 0 then - 1 else i + 1))"

text \<open>
  \<open>Array.prototype.splice(start, deleteCount)\<close> with no inserted items: a negative
  \<open>start\<close> counts from the end of the array, and the count is clamped to what is
  left after \<open>start\<close>.
\<close>

definition splice_js :: "'a list \<Rightarrow> int \<Rightarrow> int \<Rightarrow> 'a list" where
  "splice_js xs start deleteCount =
     (let len = int (length xs);
          actualStart = (if start < 0 then max (len + start) 0 else min start len);
          actualDeleteCount = min (max deleteCount 0) (len - actualStart)
      in take (nat actualStart) xs @ drop (nat (actualStart + actualDeleteCount)) xs)"

subsection \<open>State\<close>

type_synonym socket = nat

datatype db_call =
    DbGetThings
  | DbCreateThing string description
  | DbRemoveThing string

text \<open>
  \<open>things\<close> and \<open>websockets\<close> are the module's two fields. The other fields record what
  the module did to its collaborators: the calls made to the database, the messages
  handed to a websocket's \<open>send\<close> that did not throw, the things whose \<open>remove\<close> hook
  ran, and the websockets carrying a \<open>close\<close> handler of this module (one entry per
  handler).
\<close>

record world =
  things :: "(string, thing) js_map"
  websockets :: "socket list"
  db_calls :: "db_call list"
  sent :: "(socket \<times> string) list"
  released :: "thing list"
  listeners :: "socket list"

definition initial :: world where
  "initial = \<lparr>things = [], websockets = [], db_calls = [], sent = [], released = [],
     listeners = []\<rparr>"

definition store_queries :: "world \<Rightarrow> nat" where
  "store_queries w = length (filter (\<lambda>c. c = DbGetThings) (db_calls w))"

subsection \<open>getThings\<close>

text \<open>
  The synchronous part of \<open>getThings\<close>: with a non-empty map the promise is already
  resolved with it (\<open>Some\<close>); otherwise \<open>Database.getThings()\<close> is called and the
  promise waits for the database (\<open>None\<close>).
\<close>

definition getThings_call :: "world \<Rightarrow> (string, thing) js_map option \<times> world" where
  "getThings_call w =
     (if Map_size (things w) > 0 then (Some (things w), w)
      else (None, w\<lparr>db_calls := db_calls w @ [DbGetThings]\<rparr>))"

fun getThings_forEach ::
  "description list \<Rightarrow> (string, thing) js_map \<Rightarrow> (string, thing) js_map" where
  "getThings_forEach [] m = m"
| "getThings_forEach (thing # rest) m =
     getThings_forEach rest (Map_set (desc_id thing) (Thing (desc_id thing) thing) m)"

text \<open>
  The continuation, run when the database answers: a rejection is passed on, a list of
  records replaces the map by a new one.
\<close>

definition getThings_then ::
  "error + description list \<Rightarrow> world \<Rightarrow> (error + (string, thing) js_map) \<times> world" where
  "getThings_then reply w =
     (case reply of
        Inl e \<Rightarrow> (Inl e, w)
      | Inr rows \<Rightarrow>
          (let m = getThings_forEach rows [] in (Inr m, w\<lparr>things := m\<rparr>)))"

text \<open>A call whose caller waits for the result before doing anything else.\<close>

definition getThings ::
  "error + description list \<Rightarrow> world \<Rightarrow> (error + (string, thing) js_map) \<times> world" where
  "getThings reply w =
     (case getThings_call w of
        (Some m, w') \<Rightarrow> (Inr m, w')
      | (None, w') \<Rightarrow> getThings_then reply w')"

text \<open>\<open>n\<close> calls one after the other, the database answering each query with \<open>reply\<close>.\<close>

fun getThings_times :: "nat \<Rightarrow> error + description list \<Rightarrow> world \<Rightarrow> world" where
  "getThings_times 0 reply w = w"
| "getThings_times (Suc n) reply w = getThings_times n reply (snd (getThings reply w))"

text \<open>
  \<open>n\<close> calls issued together: JavaScript runs the synchronous part of every call
  before any continuation, and the continuations then run in the order of the calls.
\<close>

fun getThings_calls :: "nat \<Rightarrow> world \<Rightarrow> (string, thing) js_map option list \<times> world" where
  "getThings_calls 0 w = ([], w)"
| "getThings_calls (Suc n) w =
     (let (p, w1) = getThings_call w; (ps, w2) = getThings_calls n w1 in (p # ps, w2))"

fun getThings_settle ::
  "error + description list \<Rightarrow> (string, thing) js_map option list \<Rightarrow> world \<Rightarrow>
   (error + (string, thing) js_map) list \<times> world" where
  "getThings_settle reply [] w = ([], w)"
| "getThings_settle reply (p # ps) w =
     (let (x, w1) = (case p of Some m \<Rightarrow> (Inr m, w) | None \<Rightarrow> getThings_then reply w);
          (xs, w2) = getThings_settle reply ps w1
      in (x # xs, w2))"

definition getThings_concurrent ::
  "nat \<Rightarrow> error + description list \<Rightarrow> world \<Rightarrow>
   (error + (string, thing) js_map) list \<times> world" where
  "getThings_concurrent n reply w =
     (let (ps, w1) = getThings_calls n w in getThings_settle reply ps w1)"

subsection \<open>getThingDescriptions, getThing, getThingDescription\<close>

definition getThingDescriptions ::
  "error + description list \<Rightarrow> world \<Rightarrow> (error + description list) \<times> world" where
  "getThingDescriptions reply w =
     (case getThings reply w of
        (Inl e, w') \<Rightarrow> (Inl e, w')
      | (Inr m, w') \<Rightarrow> (Inr (map (\<lambda>(k, thing). getDescription thing) m), w'))"




subsection \<open>getNewThings\<close>

fun forIn_properties ::
  "constants \<Rightarrow> string \<Rightarrow> (string \<times> property) list \<Rightarrow> (string \<times> property) list" where
  "forIn_properties c i [] = []"
| "forIn_properties c i ((propertyName, property) # rest) =
     (propertyName,
      property\<lparr>prop_href :=
        Some (THINGS_PATH c @ ''/'' @ i @ PROPERTIES_PATH c @ ''/'' @ propertyName)\<rparr>)
     # forIn_properties c i rest"

text \<open>What the loop does to a connected thing that is not stored (lines 79 to 88).\<close>

definition address :: "constants \<Rightarrow> description \<Rightarrow> description" where
  "address c connectedThing =
     (let t1 = connectedThing\<lparr>desc_href :=
                 Some (THINGS_PATH c @ ''/'' @ desc_id connectedThing)\<rparr>
      in case desc_properties t1 of
           None \<Rightarrow> t1
         | Some ps \<Rightarrow> t1\<lparr>desc_properties := Some (forIn_properties c (desc_id t1) ps)\<rparr>)"

text \<open>
  The \<open>forEach\<close> over the connected things. It writes into the objects of the add-on
  manager's array, so it returns that array as the loop leaves it together with
  \<open>newThings\<close>.
\<close>

fun getNewThings_forEach ::
  "constants \<Rightarrow> (string, thing) js_map \<Rightarrow> description list \<Rightarrow> description list \<Rightarrow>
   description list \<times> description list" where
  "getNewThings_forEach c storedThings [] newThings = ([], newThings)"
| "getNewThings_forEach c storedThings (connectedThing # rest) newThings =
     (if \<not> Map_has storedThings (desc_id connectedThing) then
        (let t = address c connectedThing;
             (rest', result) = getNewThings_forEach c storedThings rest (newThings @ [t])
         in (t # rest', result))
      else
        (let (rest', result) = getNewThings_forEach c storedThings rest newThings
         in (connectedThing # rest', result)))"

definition getNewThings_then ::
  "constants \<Rightarrow> description list \<Rightarrow> (string, thing) js_map \<Rightarrow>
   description list \<times> description list" where
  "getNewThings_then c connectedThings storedThings =
     getNewThings_forEach c storedThings connectedThings []"

text \<open>
  \<open>connectedThings\<close> is what \<open>AddonManager.getThings()\<close> answers. The result is the
  promise's outcome, the add-on manager's array afterwards, and the state.
\<close>

definition getNewThings ::
  "constants \<Rightarrow> description list \<Rightarrow> error + description list \<Rightarrow> world \<Rightarrow>
   (error + description list) \<times> description list \<times> world" where
  "getNewThings c connectedThings reply w =
     (case getThings reply w of
        (Inl e, w') \<Rightarrow> (Inl e, connectedThings, w')
      | (Inr storedThings, w') \<Rightarrow>
          (let (connected', newThings) = getNewThings_then c connectedThings storedThings
           in (Inr newThings, connected', w')))"

subsection \<open>createThing and removeThing\<close>

definition createThing_call :: "string \<Rightarrow> description \<Rightarrow> world \<Rightarrow> thing \<times> world" where
  "createThing_call i d w =
     (let thing = Thing i d
      in (thing,
          w\<lparr>db_calls := db_calls w @ [DbCreateThing (thing_id thing) (getDescription thing)]\<rparr>))"

definition createThing_then ::
  "thing \<Rightarrow> error + description \<Rightarrow> world \<Rightarrow> (error + description) \<times> world" where
  "createThing_then thing reply w =
     (case reply of
        Inl e \<Rightarrow> (Inl e, w)
      | Inr thingDesc \<Rightarrow>
          (Inr thingDesc, w\<lparr>things := Map_set (thing_id thing) thing (things w)\<rparr>))"

definition createThing ::
  "string \<Rightarrow> description \<Rightarrow> error + description \<Rightarrow> world \<Rightarrow>
   (error + description) \<times> world" where
  "createThing i d reply w =
     (let (thing, w') = createThing_call i d w in createThing_then thing reply w')"

definition removeThing_call :: "string \<Rightarrow> world \<Rightarrow> world" where
  "removeThing_call i w = w\<lparr>db_calls := db_calls w @ [DbRemoveThing i]\<rparr>"

definition removeThing_then ::
  "string \<Rightarrow> error + unit \<Rightarrow> world \<Rightarrow> (error + unit) \<times> world" where
  "removeThing_then i reply w =
     (case reply of
        Inl e \<Rightarrow> (Inl e, w)
      | Inr u \<Rightarrow>
          (case Map_get (things w) i of
             None \<Rightarrow> (Inr (), w)
           | Some thing \<Rightarrow>
               (Inr (), w\<lparr>released := released w @ [thing],
                          things := Map_delete i (things w)\<rparr>)))"

definition removeThing :: "string \<Rightarrow> error + unit \<Rightarrow> world \<Rightarrow> (error + unit) \<times> world" where
  "removeThing i reply w = removeThing_then i reply (removeThing_call i w)"

subsection \<open>Websockets\<close>

text \<open>
  \<open>send socket message\<close> says whether the websocket's \<open>send\<close> throws (\<open>Some\<close> of what it
  throws) or takes the message (\<open>None\<close>); \<open>stringify\<close> is \<open>JSON.stringify\<close>. An exception
  leaves \<open>forEach\<close> at once.
\<close>

fun handleNewThing_forEach ::
  "(socket \<Rightarrow> string \<Rightarrow> error option) \<Rightarrow> string \<Rightarrow> socket list \<Rightarrow> world \<Rightarrow>
   (error + unit) \<times> world" where
  "handleNewThing_forEach send message [] w = (Inr (), w)"
| "handleNewThing_forEach send message (socket # rest) w =
     (case send socket message of
        Some e \<Rightarrow> (Inl e, w)
      | None \<Rightarrow>
          handleNewThing_forEach send message rest (w\<lparr>sent := sent w @ [(socket, message)]\<rparr>))"

definition handleNewThing ::
  "(socket \<Rightarrow> string \<Rightarrow> error option) \<Rightarrow> (description \<Rightarrow> string) \<Rightarrow> description \<Rightarrow>
   world \<Rightarrow> (error + unit) \<times> world" where
  "handleNewThing send stringify newThing w =
     handleNewThing_forEach send (stringify newThing) (websockets w) w"

definition registerWebsocket :: "socket \<Rightarrow> world \<Rightarrow> world" where
  "registerWebsocket websocket w =
     w\<lparr>websockets := websockets w @ [websocket], listeners := listeners w @ [websocket]\<rparr>"

text \<open>The handler that \<open>registerWebsocket\<close> installs for the websocket's \<open>close\<close> event.\<close>

definition on_close :: "socket \<Rightarrow> world \<Rightarrow> world" where
  "on_close websocket w =
     (let index = indexOf (websockets w) websocket
      in w\<lparr>websockets := splice_js (websockets w) index 1\<rparr>)"

text \<open>The \<open>close\<close> event of a websocket runs every handler installed on it.\<close>

definition emit_close :: "socket \<Rightarrow> world \<Rightarrow> world" where
  "emit_close websocket w =
     fold (\<lambda>s. on_close websocket) (filter (\<lambda>s. s = websocket) (listeners w)) w"

definition clearState :: "world \<Rightarrow> world" where
  "clearState w = w\<lparr>websockets := [], things := []\<rparr>"

text \<open>
  For stating what a broadcast did: the first exception that \<open>send\<close> throws along a list
  of websockets, if any.
\<close>

fun first_throw ::
  "(socket \<Rightarrow> string \<Rightarrow> error option) \<Rightarrow> string \<Rightarrow> socket list \<Rightarrow> error option" where
  "first_throw send message [] = None"
| "first_throw send message (socket # rest) =
     (case send socket message of Some e \<Rightarrow> Some e | None \<Rightarrow> first_throw send message rest)"

section \<open>Properties\<close>

subsection \<open>The map primitives\<close>

lemma Map_set_not_Nil: "Map_set k v m \<noteq> []"
  by (cases m) (auto split: if_splits)

lemma Map_get_Map_set: "Map_get (Map_set k v m) k' = (if k' = k then Some v else Map_get m k')"
  by (induction m) auto

lemma Map_get_Map_delete: "Map_get (Map_delete k m) k' = (if k' = k then None else Map_get m k')"
  by (induction m) auto


subsection \<open>Loading the map\<close>

lemma getThings_forEach_not_Nil:
  "rows \<noteq> [] \<or> m \<noteq> [] \<Longrightarrow> getThings_forEach rows m \<noteq> []"
  by (induction rows arbitrary: m) (auto simp: Map_set_not_Nil)

lemma getThings_warm:
  "things w \<noteq> [] \<Longrightarrow> getThings reply w = (Inr (things w), w)"
  by (simp add: getThings_def getThings_call_def Map_size_def)

lemma getThings_cold:
  "things w = [] \<Longrightarrow>
   getThings (Inr rows) w =
     (Inr (getThings_forEach rows []),
      w\<lparr>db_calls := db_calls w @ [DbGetThings], things := getThings_forEach rows []\<rparr>)"
  by (simp add: getThings_def getThings_call_def getThings_then_def Map_size_def Let_def)


lemma getThings_times_warm:
  "things w \<noteq> [] \<Longrightarrow> getThings_times n reply w = w"
  by (induction n) (auto simp: getThings_warm)

lemma store_queries_empty_times:
  "things w = [] \<Longrightarrow>
   store_queries (getThings_times n (Inr []) w) = store_queries w + n"
proof (induction n arbitrary: w)
  case 0
  show ?case by simp
next
  case (Suc n)
  let ?w1 = "w\<lparr>db_calls := db_calls w @ [DbGetThings], things := []\<rparr>"
  have step: "snd (getThings (Inr []) w) = ?w1"
    using Suc.prems by (simp add: getThings_cold)
  have "store_queries (getThings_times n (Inr []) ?w1) = store_queries ?w1 + n"
    by (rule Suc.IH) simp
  then show ?case
    by (simp add: step store_queries_def)
qed

text \<open>
  C1, as the code has it. Starting with an empty map, \<open>n \<ge> 1\<close> calls of \<open>getThings\<close>
  one after the other, with nothing in between and a database that answers every
  query with the same records, query the database exactly once when the database
  holds at least one record. When it holds none, the map is still empty after each
  load, so every call queries the database again: \<open>n\<close> queries.
\<close>

theorem getThings_sequential_queries:
  assumes "things w = []" and "0 < n"
  shows "store_queries (getThings_times n (Inr rows) w) =
           store_queries w + (if rows = [] then n else 1)"
proof (cases "rows = []")
  case True
  then show ?thesis using assms(1) by (simp add: store_queries_empty_times)
next
  case False
  obtain k where n: "n = Suc k" using assms(2) by (cases n) auto
  let ?m = "getThings_forEach rows []"
  let ?w1 = "w\<lparr>db_calls := db_calls w @ [DbGetThings], things := ?m\<rparr>"
  have warm: "things ?w1 \<noteq> []"
    using False by (simp add: getThings_forEach_not_Nil)
  have "getThings_times n (Inr rows) w = getThings_times k (Inr rows) ?w1"
    using assms(1) by (simp add: n getThings_cold)
  also have "\<dots> = ?w1"
    using warm by (rule getThings_times_warm)
  finally show ?thesis
    using False by (simp add: store_queries_def)
qed

theorem getThings_sequential_queries_witness:
  "things initial = [] \<and> (0::nat) < 3 \<and>
   store_queries (getThings_times 3
     (Inr [\<lparr>desc_id = ''A'', desc_href = None, desc_properties = None, desc_other = ''''\<rparr>])
     initial) = 1 \<and>
   store_queries (getThings_times 3 (Inr []) initial) = 3"
proof -
  have c: "things initial = []" by (simp add: initial_def)
  have p: "(0::nat) < 3" by simp
  have q: "store_queries initial = 0" by (simp add: initial_def store_queries_def)
  show ?thesis
    using getThings_sequential_queries [OF c p,
        of "[\<lparr>desc_id = ''A'', desc_href = None, desc_properties = None, desc_other = ''''\<rparr>]"]
      getThings_sequential_queries [OF c p, of "[]"] c q
    by simp
qed

text \<open>
  C1 as stated fails on an empty database: two calls in a row from the initial state
  make two queries, not one.
\<close>

theorem getThings_empty_store_requeries:
  "store_queries (getThings_times 2 (Inr []) initial) = 2"
  by (simp add: numeral_2_eq_2 getThings_def getThings_call_def getThings_then_def
      Map_size_def initial_def store_queries_def Let_def)

subsection \<open>Concurrent loads\<close>

lemma getThings_calls_cold:
  "things w = [] \<Longrightarrow>
   getThings_calls n w = (replicate n None, w\<lparr>db_calls := db_calls w @ replicate n DbGetThings\<rparr>)"
proof (induction n arbitrary: w)
  case 0
  show ?case by simp
next
  case (Suc n)
  let ?w1 = "w\<lparr>db_calls := db_calls w @ [DbGetThings]\<rparr>"
  have call: "getThings_call w = (None, ?w1)"
    using Suc.prems by (simp add: getThings_call_def Map_size_def)
  have "getThings_calls n ?w1 =
      (replicate n None, ?w1\<lparr>db_calls := db_calls ?w1 @ replicate n DbGetThings\<rparr>)"
    by (rule Suc.IH) (simp add: Suc.prems)
  then show ?case
    by (simp add: call)
qed

lemma getThings_settle_cold:
  "getThings_settle (Inr rows) (replicate n None) w =
     (replicate n (Inr (getThings_forEach rows [])),
      if n = 0 then w else w\<lparr>things := getThings_forEach rows []\<rparr>)"
  by (induction n arbitrary: w) (simp_all add: getThings_then_def Let_def)

text \<open>
  C9, as the code has it. \<open>getThings\<close> has no guard for a load in flight: \<open>n\<close> calls
  issued together on an empty map each find it empty and each query the database,
  \<open>n\<close> queries in all. When the database answers every query with the same records,
  every caller receives an equal map.
\<close>

theorem getThings_concurrent_queries:
  assumes "things w = []"
  shows "fst (getThings_concurrent n (Inr rows) w) =
           replicate n (Inr (getThings_forEach rows [])) \<and>
         store_queries (snd (getThings_concurrent n (Inr rows) w)) = store_queries w + n"
  using assms
  by (simp add: getThings_concurrent_def getThings_calls_cold getThings_settle_cold
      store_queries_def)

theorem getThings_concurrent_queries_witness:
  "things initial = [] \<and>
   fst (getThings_concurrent 2
     (Inr [\<lparr>desc_id = ''A'', desc_href = None, desc_properties = None, desc_other = ''''\<rparr>])
     initial) =
     [Inr [(''A'', Thing ''A''
             \<lparr>desc_id = ''A'', desc_href = None, desc_properties = None, desc_other = ''''\<rparr>)],
      Inr [(''A'', Thing ''A''
             \<lparr>desc_id = ''A'', desc_href = None, desc_properties = None, desc_other = ''''\<rparr>)]] \<and>
   store_queries (snd (getThings_concurrent 2
     (Inr [\<lparr>desc_id = ''A'', desc_href = None, desc_properties = None, desc_other = ''''\<rparr>])
     initial)) = 2"
proof -
  have c: "things initial = []" by (simp add: initial_def)
  have q: "store_queries initial = 0" by (simp add: initial_def store_queries_def)
  show ?thesis
    using getThings_concurrent_queries [OF c, of 2
        "[\<lparr>desc_id = ''A'', desc_href = None, desc_properties = None, desc_other = ''''\<rparr>]"]
      c q
    by (simp add: numeral_2_eq_2)
qed

text \<open>
  C9 as stated fails: two calls issued together on the initial state, against a
  database holding one record, make two queries, not one.
\<close>

theorem getThings_concurrent_two_queries:
  "store_queries (snd (getThings_concurrent 2
     (Inr [\<lparr>desc_id = ''A'', desc_href = None, desc_properties = None, desc_other = ''''\<rparr>])
     initial)) = 2"
  by (simp add: numeral_2_eq_2 getThings_concurrent_def getThings_call_def getThings_then_def
      Map_size_def initial_def store_queries_def Let_def)

subsection \<open>Creating on an empty map\<close>

text \<open>
  C2, at the input where the code breaks it. The database holds \<open>A\<close>; nothing has been
  loaded yet. \<open>createThing\<close> of \<open>B\<close> succeeds and leaves the map holding \<open>B\<close> alone. The
  map is now non-empty, so the next \<open>getThings\<close> answers from it without a query:
  \<open>A\<close>, which the database would have listed, is missing from the result.
\<close>

theorem createThing_cold_hides_stored:
  "fst (getThings
     (Inr [\<lparr>desc_id = ''A'', desc_href = None, desc_properties = None, desc_other = ''''\<rparr>,
           \<lparr>desc_id = ''B'', desc_href = None, desc_properties = None, desc_other = ''''\<rparr>])
     (snd (createThing ''B''
       \<lparr>desc_id = ''B'', desc_href = None, desc_properties = None, desc_other = ''''\<rparr>
       (Inr \<lparr>desc_id = ''B'', desc_href = None, desc_properties = None, desc_other = ''''\<rparr>)
       initial))) =
     Inr [(''B'', Thing ''B''
       \<lparr>desc_id = ''B'', desc_href = None, desc_properties = None, desc_other = ''''\<rparr>)] \<and>
   store_queries (snd (getThings
     (Inr [\<lparr>desc_id = ''A'', desc_href = None, desc_properties = None, desc_other = ''''\<rparr>,
           \<lparr>desc_id = ''B'', desc_href = None, desc_properties = None, desc_other = ''''\<rparr>])
     (snd (createThing ''B''
       \<lparr>desc_id = ''B'', desc_href = None, desc_properties = None, desc_other = ''''\<rparr>
       (Inr \<lparr>desc_id = ''B'', desc_href = None, desc_properties = None, desc_other = ''''\<rparr>)
       initial)))) = 0"
  by (simp add: getThings_def getThings_call_def Map_size_def createThing_def
      createThing_call_def createThing_then_def Thing_def getDescription_def initial_def
      store_queries_def Let_def)

subsection \<open>Reconciliation\<close>

lemma forIn_properties_href:
  "(n, p) \<in> set (forIn_properties c i ps) \<Longrightarrow>
   prop_href p = Some (THINGS_PATH c @ ''/'' @ i @ PROPERTIES_PATH c @ ''/'' @ n)"
  by (induction ps) auto

lemma forIn_properties_names: "map fst (forIn_properties c i ps) = map fst ps"
  by (induction ps) auto

lemma address_names:
  "map_option (map fst) (desc_properties (address c d)) = map_option (map fst) (desc_properties d)"
  by (cases "desc_properties d") (simp_all add: address_def Let_def forIn_properties_names)

lemma address_id: "desc_id (address c d) = desc_id d"
  by (simp add: address_def Let_def split: option.splits)

lemma address_href: "desc_href (address c d) = Some (THINGS_PATH c @ ''/'' @ desc_id d)"
  by (simp add: address_def Let_def split: option.splits)

lemma address_properties:
  "desc_properties (address c d) = map_option (forIn_properties c (desc_id d)) (desc_properties d)"
  by (simp add: address_def Let_def split: option.splits)

lemma address_other: "desc_other (address c d) = desc_other d"
  by (simp add: address_def Let_def split: option.splits)

lemma getNewThings_forEach_eq:
  "getNewThings_forEach c stored connected acc =
     (map (\<lambda>d. if Map_has stored (desc_id d) then d else address c d) connected,
      acc @ map (address c) (filter (\<lambda>d. \<not> Map_has stored (desc_id d)) connected))"
  by (induction connected arbitrary: acc) (auto simp: Let_def)

text \<open>
  C3. For every stored map and every list of connected things, \<open>getNewThings\<close> answers
  the connected things whose id is not a key of the stored map, in the order of the
  connected list, each one addressed: its \<open>href\<close> is \<open>THINGS_PATH/id\<close> and, when it has
  properties, the \<open>href\<close> of the property named \<open>n\<close> is
  \<open>THINGS_PATH/id PROPERTIES_PATH/n\<close>; addressing changes neither the id, nor the
  property names, nor the rest of the description. A connected thing that is stored
  is not part of the answer and is left as it was in the add-on manager's list.
\<close>

theorem getNewThings_reconciles:
  "snd (getNewThings_then c connected stored) =
     map (address c) (filter (\<lambda>d. \<not> Map_has stored (desc_id d)) connected) \<and>
   map desc_id (snd (getNewThings_then c connected stored)) =
     filter (\<lambda>i. \<not> Map_has stored i) (map desc_id connected) \<and>
   fst (getNewThings_then c connected stored) =
     map (\<lambda>d. if Map_has stored (desc_id d) then d else address c d) connected \<and>
   (\<forall>d. desc_id (address c d) = desc_id d \<and> desc_other (address c d) = desc_other d \<and>
        map_option (map fst) (desc_properties (address c d)) =
          map_option (map fst) (desc_properties d)) \<and>
   (\<forall>t \<in> set (snd (getNewThings_then c connected stored)).
      \<not> Map_has stored (desc_id t) \<and>
      desc_href t = Some (THINGS_PATH c @ ''/'' @ desc_id t) \<and>
      (\<forall>ps. desc_properties t = Some ps \<longrightarrow>
         (\<forall>(n, p) \<in> set ps.
            prop_href p =
              Some (THINGS_PATH c @ ''/'' @ desc_id t @ PROPERTIES_PATH c @ ''/'' @ n)))) \<and>
   (fst (getThings reply w) = Inr stored \<longrightarrow>
      fst (getNewThings c connected reply w) =
        Inr (map (address c) (filter (\<lambda>d. \<not> Map_has stored (desc_id d)) connected)))"
proof -
  let ?new = "map (address c) (filter (\<lambda>d. \<not> Map_has stored (desc_id d)) connected)"
  have res: "getNewThings_then c connected stored =
      (map (\<lambda>d. if Map_has stored (desc_id d) then d else address c d) connected, ?new)"
    by (simp add: getNewThings_then_def getNewThings_forEach_eq)
  have ids: "map desc_id ?new = filter (\<lambda>i. \<not> Map_has stored i) (map desc_id connected)"
    by (simp add: filter_map o_def address_id)
  have frame: "\<forall>d. desc_id (address c d) = desc_id d \<and> desc_other (address c d) = desc_other d \<and>
        map_option (map fst) (desc_properties (address c d)) =
          map_option (map fst) (desc_properties d)"
    by (simp add: address_id address_other address_names)
  have each: "\<forall>t \<in> set ?new.
      \<not> Map_has stored (desc_id t) \<and>
      desc_href t = Some (THINGS_PATH c @ ''/'' @ desc_id t) \<and>
      (\<forall>ps. desc_properties t = Some ps \<longrightarrow>
         (\<forall>(n, p) \<in> set ps.
            prop_href p =
              Some (THINGS_PATH c @ ''/'' @ desc_id t @ PROPERTIES_PATH c @ ''/'' @ n)))"
  proof
    fix t assume "t \<in> set ?new"
    then obtain d where d: "t = address c d" "\<not> Map_has stored (desc_id d)"
      by auto
    have new: "\<not> Map_has stored (desc_id t)"
      using d by (simp add: address_id)
    have href: "desc_href t = Some (THINGS_PATH c @ ''/'' @ desc_id t)"
      using d by (simp add: address_id address_href)
    have props: "\<forall>ps. desc_properties t = Some ps \<longrightarrow>
         (\<forall>(n, p) \<in> set ps.
            prop_href p =
              Some (THINGS_PATH c @ ''/'' @ desc_id t @ PROPERTIES_PATH c @ ''/'' @ n))"
    proof (intro allI impI)
      fix ps assume "desc_properties t = Some ps"
      then obtain qs where "ps = forIn_properties c (desc_id d) qs"
        using d by (auto simp: address_properties)
      then show "\<forall>(n, p) \<in> set ps.
            prop_href p =
              Some (THINGS_PATH c @ ''/'' @ desc_id t @ PROPERTIES_PATH c @ ''/'' @ n)"
        using d by (auto simp: address_id dest: forIn_properties_href)
    qed
    show "\<not> Map_has stored (desc_id t) \<and>
      desc_href t = Some (THINGS_PATH c @ ''/'' @ desc_id t) \<and>
      (\<forall>ps. desc_properties t = Some ps \<longrightarrow>
         (\<forall>(n, p) \<in> set ps.
            prop_href p =
              Some (THINGS_PATH c @ ''/'' @ desc_id t @ PROPERTIES_PATH c @ ''/'' @ n)))"
      by (intro conjI new href props)
  qed
  have whole: "fst (getThings reply w) = Inr stored \<longrightarrow>
      fst (getNewThings c connected reply w) = Inr ?new"
    by (cases "getThings reply w") (auto simp: getNewThings_def res)
  show ?thesis
    unfolding res fst_conv snd_conv
    by (intro conjI refl ids frame each whole)
qed

theorem getNewThings_reconciles_witness:
  "fst (getThings
     (Inr [\<lparr>desc_id = ''A'', desc_href = None, desc_properties = None, desc_other = ''''\<rparr>])
     initial) =
     Inr [(''A'', Thing ''A''
       \<lparr>desc_id = ''A'', desc_href = None, desc_properties = None, desc_other = ''''\<rparr>)] \<and>
   fst (getNewThings \<lparr>THINGS_PATH = ''/things'', PROPERTIES_PATH = ''/properties''\<rparr>
     [\<lparr>desc_id = ''A'', desc_href = None, desc_properties = None, desc_other = ''''\<rparr>,
      \<lparr>desc_id = ''B'', desc_href = None,
        desc_properties = Some [(''p'', \<lparr>prop_href = None, prop_other = ''''\<rparr>)],
        desc_other = ''''\<rparr>]
     (Inr [\<lparr>desc_id = ''A'', desc_href = None, desc_properties = None, desc_other = ''''\<rparr>])
     initial) =
     Inr [\<lparr>desc_id = ''B'', desc_href = Some ''/things/B'',
            desc_properties =
              Some [(''p'', \<lparr>prop_href = Some ''/things/B/properties/p'', prop_other = ''''\<rparr>)],
            desc_other = ''''\<rparr>] \<and>
   fst (getNewThings_then \<lparr>THINGS_PATH = ''/things'', PROPERTIES_PATH = ''/properties''\<rparr>
     [\<lparr>desc_id = ''A'', desc_href = None, desc_properties = None, desc_other = ''''\<rparr>,
      \<lparr>desc_id = ''B'', desc_href = None,
        desc_properties = Some [(''p'', \<lparr>prop_href = None, prop_other = ''''\<rparr>)],
        desc_other = ''''\<rparr>]
     [(''A'', Thing ''A''
       \<lparr>desc_id = ''A'', desc_href = None, desc_properties = None, desc_other = ''''\<rparr>)]) =
     [\<lparr>desc_id = ''A'', desc_href = None, desc_properties = None, desc_other = ''''\<rparr>,
      \<lparr>desc_id = ''B'', desc_href = Some ''/things/B'',
        desc_properties =
          Some [(''p'', \<lparr>prop_href = Some ''/things/B/properties/p'', prop_other = ''''\<rparr>)],
        desc_other = ''''\<rparr>]"
proof -
  let ?A = "\<lparr>desc_id = ''A'', desc_href = None, desc_properties = None, desc_other = ''''\<rparr>"
  let ?B = "\<lparr>desc_id = ''B'', desc_href = None,
        desc_properties = Some [(''p'', \<lparr>prop_href = None, prop_other = ''''\<rparr>)],
        desc_other = ''''\<rparr>"
  let ?c = "\<lparr>THINGS_PATH = ''/things'', PROPERTIES_PATH = ''/properties''\<rparr>"
  have c: "things initial = []" by (simp add: initial_def)
  have stored: "fst (getThings (Inr [?A]) initial) = Inr [(''A'', Thing ''A'' ?A)]"
    by (simp add: getThings_cold [OF c])
  have addr: "address ?c ?B =
      \<lparr>desc_id = ''B'', desc_href = Some ''/things/B'',
        desc_properties =
          Some [(''p'', \<lparr>prop_href = Some ''/things/B/properties/p'', prop_other = ''''\<rparr>)],
        desc_other = ''''\<rparr>"
    by (simp add: address_def)
  show ?thesis
    using getNewThings_reconciles [of ?c "[?A, ?B]" "[(''A'', Thing ''A'' ?A)]" "Inr [?A]" initial]
      stored
    by (simp add: addr)
qed

subsection \<open>Lookup by id\<close>



subsection \<open>Broadcast\<close>

lemma handleNewThing_forEach_eq:
  "handleNewThing_forEach send message ss w =
     ((case first_throw send message ss of None \<Rightarrow> Inr () | Some e \<Rightarrow> Inl e),
      w\<lparr>sent := sent w @ map (\<lambda>s. (s, message)) (takeWhile (\<lambda>s. send s message = None) ss)\<rparr>)"
  by (induction ss arbitrary: w) (auto split: option.splits)

lemma first_throw_None:
  "list_all (\<lambda>s. send s message = None) ss \<Longrightarrow> first_throw send message ss = None"
  by (induction ss) auto

lemma takeWhile_all: "list_all P ss \<Longrightarrow> takeWhile P ss = ss"
  by (induction ss) auto

text \<open>
  What a broadcast does in general: the websockets before the first \<open>send\<close> that throws
  have the message, that exception leaves \<open>handleNewThing\<close>, and the list of websockets
  is unchanged. When no \<open>send\<close> throws, every registered websocket has the message.
\<close>

lemma handleNewThing_deliveries:
  "websockets (snd (handleNewThing send stringify newThing w)) = websockets w \<and>
   sent (snd (handleNewThing send stringify newThing w)) =
     sent w @ map (\<lambda>s. (s, stringify newThing))
       (takeWhile (\<lambda>s. send s (stringify newThing) = None) (websockets w)) \<and>
   fst (handleNewThing send stringify newThing w) =
     (case first_throw send (stringify newThing) (websockets w) of
        None \<Rightarrow> Inr () | Some e \<Rightarrow> Inl e) \<and>
   (list_all (\<lambda>s. send s (stringify newThing) = None) (websockets w) \<longrightarrow>
      fst (handleNewThing send stringify newThing w) = Inr () \<and>
      sent (snd (handleNewThing send stringify newThing w)) =
        sent w @ map (\<lambda>s. (s, stringify newThing)) (websockets w))"
  by (simp add: handleNewThing_def handleNewThing_forEach_eq first_throw_None takeWhile_all)

text \<open>
  C5, at the input where the code breaks it. Websockets 1 and 2 are registered in this
  order and both are in the list; \<open>send\<close> throws on websocket 1 only. The exception
  leaves the \<open>forEach\<close>: the broadcast ends with it and nothing is delivered, although
  \<open>send\<close> on websocket 2 would have succeeded. Both websockets are still in the list
  afterwards.
\<close>

theorem handleNewThing_failure_stops_broadcast:
  "fst (handleNewThing (\<lambda>s m. if s = 1 then Some (Error ''not opened'') else None) (\<lambda>d. ''x'')
      \<lparr>desc_id = ''B'', desc_href = None, desc_properties = None, desc_other = ''''\<rparr>
      (registerWebsocket 2 (registerWebsocket 1 initial))) = Inl (Error ''not opened'') \<and>
   sent (snd (handleNewThing (\<lambda>s m. if s = 1 then Some (Error ''not opened'') else None)
      (\<lambda>d. ''x'')
      \<lparr>desc_id = ''B'', desc_href = None, desc_properties = None, desc_other = ''''\<rparr>
      (registerWebsocket 2 (registerWebsocket 1 initial)))) = [] \<and>
   websockets (snd (handleNewThing (\<lambda>s m. if s = 1 then Some (Error ''not opened'') else None)
      (\<lambda>d. ''x'')
      \<lparr>desc_id = ''B'', desc_href = None, desc_properties = None, desc_other = ''''\<rparr>
      (registerWebsocket 2 (registerWebsocket 1 initial)))) = [1, 2]"
  by (simp add: handleNewThing_def registerWebsocket_def initial_def)

subsection \<open>clearState\<close>

lemma fold_registerWebsocket:
  "fold registerWebsocket rs w =
     w\<lparr>websockets := websockets w @ rs, listeners := listeners w @ rs\<rparr>"
  by (induction rs arbitrary: w) (auto simp: registerWebsocket_def)

text \<open>
  C10. \<open>clearState\<close> empties the list of websockets together with the map. A broadcast
  right after it delivers nothing and succeeds; after further registrations \<open>rs\<close> a
  broadcast delivers to websockets of \<open>rs\<close> only, so a websocket registered before the
  clear and not registered again receives nothing, whether or not it ever closed.
\<close>

theorem clearState_drops_subscribers:
  "websockets (clearState w) = [] \<and> things (clearState w) = [] \<and>
   handleNewThing send stringify newThing (clearState w) = (Inr (), clearState w) \<and>
   sent (clearState w) = sent w \<and>
   sent (snd (handleNewThing send stringify newThing (fold registerWebsocket rs (clearState w)))) =
     sent w @ map (\<lambda>s. (s, stringify newThing))
       (takeWhile (\<lambda>s. send s (stringify newThing) = None) rs)"
  by (simp add: handleNewThing_def handleNewThing_forEach_eq fold_registerWebsocket clearState_def)

theorem clearState_drops_subscribers_witness:
  "websockets (registerWebsocket 1 initial) = [1] \<and>
   websockets (clearState (registerWebsocket 1 initial)) = [] \<and>
   sent (snd (handleNewThing (\<lambda>s m. None) (\<lambda>d. ''x'')
     \<lparr>desc_id = ''B'', desc_href = None, desc_properties = None, desc_other = ''''\<rparr>
     (fold registerWebsocket [2] (clearState (registerWebsocket 1 initial))))) = [(2, ''x'')]"
proof -
  let ?B = "\<lparr>desc_id = ''B'', desc_href = None, desc_properties = None, desc_other = ''''\<rparr>"
  let ?w = "registerWebsocket 1 initial"
  have before: "websockets ?w = [1]" and log: "sent ?w = []"
    by (simp_all add: registerWebsocket_def initial_def)
  have cleared: "websockets (clearState ?w) = []"
    using clearState_drops_subscribers [of ?w] by blast
  have "sent (snd (handleNewThing (\<lambda>s m. None) (\<lambda>d. ''x'') ?B
           (fold registerWebsocket [2] (clearState ?w)))) =
        sent ?w @ map (\<lambda>s. (s, ''x'')) (takeWhile (\<lambda>s. (None :: error option) = None) [2])"
    using clearState_drops_subscribers [of ?w "\<lambda>s m. None" "\<lambda>d. ''x''" ?B "[2]"] by blast
  then have after: "sent (snd (handleNewThing (\<lambda>s m. None) (\<lambda>d. ''x'') ?B
           (fold registerWebsocket [2] (clearState ?w)))) = [(2, ''x'')]"
    using log by simp
  show ?thesis
    by (intro conjI before cleared after)
qed

subsection \<open>createThing\<close>

text \<open>
  C6. \<open>createThing\<close> asks the database first. When the database rejects, the rejection
  is the outcome and the map is unchanged, so no entry for the id becomes visible.
  When the database resolves with a description, that description is the outcome and
  the \<open>Thing\<close> built from the arguments is in the map under the id.
\<close>

theorem createThing_store_first:
  "fst (createThing i d (Inl e) w) = Inl e \<and>
   things (snd (createThing i d (Inl e) w)) = things w \<and>
   fst (createThing i d (Inr thingDesc) w) = Inr thingDesc \<and>
   things (snd (createThing i d (Inr thingDesc) w)) = Map_set i (Thing i d) (things w) \<and>
   Map_get (things (snd (createThing i d (Inr thingDesc) w))) i = Some (Thing i d) \<and>
   db_calls (snd (createThing i d reply w)) =
     db_calls w @ [DbCreateThing i (getDescription (Thing i d))]"
  by (cases reply)
    (simp_all add: createThing_def createThing_call_def createThing_then_def Thing_def
      Map_get_Map_set Let_def)

theorem createThing_store_first_witness:
  "things (snd (createThing ''a''
     \<lparr>desc_id = ''a'', desc_href = None, desc_properties = None, desc_other = ''''\<rparr>
     (Inl (Error ''SQLITE_CONSTRAINT'')) initial)) = [] \<and>
   things (snd (createThing ''a''
     \<lparr>desc_id = ''a'', desc_href = None, desc_properties = None, desc_other = ''''\<rparr>
     (Inr \<lparr>desc_id = ''a'', desc_href = None, desc_properties = None, desc_other = ''''\<rparr>)
     initial)) =
     [(''a'', Thing ''a''
        \<lparr>desc_id = ''a'', desc_href = None, desc_properties = None, desc_other = ''''\<rparr>)]"
  using createThing_store_first [of "''a''"
      "\<lparr>desc_id = ''a'', desc_href = None, desc_properties = None, desc_other = ''''\<rparr>"
      "Error ''SQLITE_CONSTRAINT''" initial
      "\<lparr>desc_id = ''a'', desc_href = None, desc_properties = None, desc_other = ''''\<rparr>"
      undefined]
  by (simp add: initial_def)

subsection \<open>removeThing\<close>

text \<open>
  C7. \<open>removeThing\<close> asks the database first, whatever the map holds. When the database
  rejects, the rejection is the outcome and neither the map nor any \<open>Thing\<close> is touched.
  When the database resolves and the id is in the map, the \<open>remove\<close> hook of that
  \<open>Thing\<close> runs and the entry is deleted; when the id is not in the map the call
  succeeds and changes nothing. So a second \<open>removeThing\<close> of the same id, with the
  database resolving again, succeeds and leaves map and hooks as the first left them.
\<close>

theorem removeThing_store_first:
  "db_calls (snd (removeThing i reply w)) = db_calls w @ [DbRemoveThing i] \<and>
   fst (removeThing i (Inl e) w) = Inl e \<and>
   things (snd (removeThing i (Inl e) w)) = things w \<and>
   released (snd (removeThing i (Inl e) w)) = released w \<and>
   fst (removeThing i (Inr ()) w) = Inr () \<and>
   (Map_get (things w) i = Some t \<longrightarrow>
      released (snd (removeThing i (Inr ()) w)) = released w @ [t] \<and>
      things (snd (removeThing i (Inr ()) w)) = Map_delete i (things w) \<and>
      Map_get (things (snd (removeThing i (Inr ()) w))) i = None) \<and>
   (Map_get (things w) i = None \<longrightarrow>
      things (snd (removeThing i (Inr ()) w)) = things w \<and>
      released (snd (removeThing i (Inr ()) w)) = released w) \<and>
   fst (removeThing i (Inr ()) (snd (removeThing i (Inr ()) w))) = Inr () \<and>
   things (snd (removeThing i (Inr ()) (snd (removeThing i (Inr ()) w)))) =
     things (snd (removeThing i (Inr ()) w)) \<and>
   released (snd (removeThing i (Inr ()) (snd (removeThing i (Inr ()) w)))) =
     released (snd (removeThing i (Inr ()) w))"
  by (cases reply; cases "Map_get (things w) i")
    (simp_all add: removeThing_def removeThing_call_def removeThing_then_def
      Map_get_Map_delete)

theorem removeThing_store_first_witness:
  "Map_get (things (snd (createThing ''a''
       \<lparr>desc_id = ''a'', desc_href = None, desc_properties = None, desc_other = ''''\<rparr>
       (Inr \<lparr>desc_id = ''a'', desc_href = None, desc_properties = None, desc_other = ''''\<rparr>)
       initial))) ''a''
     = Some (Thing ''a''
         \<lparr>desc_id = ''a'', desc_href = None, desc_properties = None, desc_other = ''''\<rparr>) \<and>
   released (snd (removeThing ''a'' (Inr ()) (snd (createThing ''a''
       \<lparr>desc_id = ''a'', desc_href = None, desc_properties = None, desc_other = ''''\<rparr>
       (Inr \<lparr>desc_id = ''a'', desc_href = None, desc_properties = None, desc_other = ''''\<rparr>)
       initial))))
     = [Thing ''a''
         \<lparr>desc_id = ''a'', desc_href = None, desc_properties = None, desc_other = ''''\<rparr>] \<and>
   things (snd (removeThing ''a'' (Inr ()) (snd (createThing ''a''
       \<lparr>desc_id = ''a'', desc_href = None, desc_properties = None, desc_other = ''''\<rparr>
       (Inr \<lparr>desc_id = ''a'', desc_href = None, desc_properties = None, desc_other = ''''\<rparr>)
       initial)))) = [] \<and>
   Map_get (things initial) ''a'' = None \<and>
   things (snd (removeThing ''a'' (Inr ()) initial)) = [] \<and>
   released (snd (removeThing ''a'' (Inr ()) initial)) = []"
proof -
  let ?d = "\<lparr>desc_id = ''a'', desc_href = None, desc_properties = None, desc_other = ''''\<rparr>"
  let ?w = "snd (createThing ''a'' ?d (Inr ?d) initial)"
  have w: "?w = initial\<lparr>db_calls := [DbCreateThing ''a'' ?d], things := [(''a'', Thing ''a'' ?d)]\<rparr>"
    by (simp add: createThing_def createThing_call_def createThing_then_def Thing_def
      getDescription_def initial_def)
  have present: "Map_get (things ?w) ''a'' = Some (Thing ''a'' ?d)"
    by (simp add: w)
  have absent: "Map_get (things initial) ''a'' = None"
    by (simp add: initial_def)
  have w_rel: "released ?w = []" and w_things: "things ?w = [(''a'', Thing ''a'' ?d)]"
    unfolding w by (simp_all add: initial_def)
  have r1: "released (snd (removeThing ''a'' (Inr ()) ?w)) = released ?w @ [Thing ''a'' ?d] \<and>
      things (snd (removeThing ''a'' (Inr ()) ?w)) = Map_delete ''a'' (things ?w)"
    using removeThing_store_first [of "''a''" "Inr ()" ?w undefined "Thing ''a'' ?d"] present
    by blast
  have r2: "things (snd (removeThing ''a'' (Inr ()) initial)) = things initial \<and>
      released (snd (removeThing ''a'' (Inr ()) initial)) = released initial"
    using removeThing_store_first [of "''a''" "Inr ()" initial undefined undefined] absent
    by blast
  have i: "things initial = []" "released initial = []"
    by (simp_all add: initial_def)
  show ?thesis
    using r1 r2 present absent by (simp add: w_rel w_things i)
qed

subsection \<open>Closing a websocket\<close>

lemma indexOf_absent: "x \<notin> set xs \<Longrightarrow> indexOf xs x = - 1"
  by (induction xs) (auto simp: Let_def)

lemma indexOf_present: "x \<in> set xs \<Longrightarrow> 0 \<le> indexOf xs x \<and> indexOf xs x < int (length xs)"
  by (induction xs) (auto simp: Let_def)

text \<open>
  With the websocket in the list, the handler removes its first occurrence and
  nothing else.
\<close>

lemma splice_indexOf_present:
  "x \<in> set xs \<Longrightarrow> splice_js xs (indexOf xs x) 1 = remove1 x xs"
proof (induction xs)
  case Nil
  then show ?case by simp
next
  case (Cons y ys)
  show ?case
  proof (cases "y = x")
    case True
    then show ?thesis by (simp add: splice_js_def)
  next
    case False
    then have mem: "x \<in> set ys" using Cons.prems by simp
    note b = indexOf_present [OF mem]
    have ih: "splice_js ys (indexOf ys x) 1 = remove1 x ys"
      using Cons.IH mem by simp
    have "splice_js (y # ys) (indexOf ys x + 1) 1 = y # splice_js ys (indexOf ys x) 1"
      using b by (simp add: splice_js_def Let_def nat_add_distrib min_def max_def)
    then show ?thesis
      using False b ih by (simp add: Let_def)
  qed
qed

lemma on_close_present:
  "websocket \<in> set (websockets w) \<Longrightarrow>
   websockets (on_close websocket w) = remove1 websocket (websockets w)"
  by (simp add: on_close_def splice_indexOf_present)

text \<open>
  With the websocket not in the list, \<open>indexOf\<close> answers \<open>-1\<close> and \<open>splice(-1, 1)\<close>
  removes the last entry of the list.
\<close>

lemma splice_indexOf_absent:
  "x \<notin> set xs \<Longrightarrow> splice_js xs (indexOf xs x) 1 = butlast xs"
  by (cases xs rule: rev_cases) (auto simp: indexOf_absent splice_js_def Let_def)

lemma on_close_absent:
  "websocket \<notin> set (websockets w) \<Longrightarrow>
   websockets (on_close websocket w) = butlast (websockets w)"
  by (simp add: on_close_def splice_indexOf_absent)

text \<open>
  C8, at the input where the code breaks it. Websocket 1 is registered, \<open>clearState\<close>
  empties the list, websocket 2 is registered, and then websocket 1 closes. Its handler
  is still installed; websocket 1 is no longer in the list, and the handler removes
  websocket 2, which never closed.
\<close>

theorem close_after_clearState_removes_other:
  "websockets (registerWebsocket 2 (clearState (registerWebsocket 1 initial))) = [2] \<and>
   websockets (emit_close 1 (registerWebsocket 2 (clearState (registerWebsocket 1 initial)))) = []"
  by (simp add: emit_close_def on_close_def registerWebsocket_def clearState_def initial_def
      splice_js_def Let_def)

end
